theory Spec2Isabelle
  imports Main
begin

section \<open>JavaScript values used by the sources\<close>

text \<open>
  A value of type \<^verbatim>\<open>string | undefined\<close> (or \<^verbatim>\<open>string | null\<close>) is a
  \<^typ>\<open>string option\<close>. In a condition JavaScript converts such a value to a boolean:
  \<^verbatim>\<open>undefined\<close>, \<^verbatim>\<open>null\<close> and the empty string are falsy, every other string is
  truthy.
\<close>

definition truthy :: "string option \<Rightarrow> bool" where
  "truthy v = (case v of None \<Rightarrow> False | Some s \<Rightarrow> s \<noteq> [])"

text \<open>
  A JavaScript \<^verbatim>\<open>Set\<close> keeps its elements in insertion order and holds each value
  once: adding a value that is already a member changes nothing. It is modelled by the
  list of its members in insertion order. \<^verbatim>\<open>new Set(iterable)\<close> adds the elements of
  the iterable one after the other to an empty set, and spreading a set
  (\<^verbatim>\<open>[...s]\<close>) lists its members in insertion order.
\<close>

type_synonym 'a js_set = "'a list"

definition Set_add :: "'a js_set \<Rightarrow> 'a \<Rightarrow> 'a js_set" where
  "Set_add s x = (if x \<in> set s then s else s @ [x])"

definition new_Set :: "'a list \<Rightarrow> 'a js_set" where
  "new_Set xs = foldl Set_add [] xs"

definition spread :: "'a js_set \<Rightarrow> 'a list" where
  "spread s = s"


section \<open>The tool selector (\<^verbatim>\<open>src/server/actions/orchestrator.ts\<close>)\<close>

text \<open>
  What \<^verbatim>\<open>generateObject\<close> resolves to: the array of strings it generated
  (\<^verbatim>\<open>object\<close>) and the usage record, whose type belongs to the \<^verbatim>\<open>ai\<close> library and
  is left open.
\<close>

record 'u generated =
  gen_object :: "string list"
  gen_usage :: 'u

text \<open>
  The value of the promise returned by \<^verbatim>\<open>getToolsFromOrchestrator\<close>;
  \<^verbatim>\<open>toolsRequired: undefined\<close> is \<^const>\<open>None\<close>.
\<close>

record 'u selection =
  usage :: 'u
  toolsRequired :: "string list option"

text \<open>
  The classification call is the function's only contact with the outside. It is a
  parameter here: given the messages it either rejects with an error (\<^const>\<open>Inl\<close>) or
  resolves (\<^const>\<open>Inr\<close>). The fixed arguments of the call (model, system prompt,
  schema, telemetry) are part of that parameter. The \<^verbatim>\<open>await\<close> is outside any
  \<^verbatim>\<open>try\<close>, so a rejection becomes the rejection of the function itself.
\<close>

definition getToolsFromOrchestrator ::
  "('m \<Rightarrow> 'e + 'u generated) \<Rightarrow> 'm \<Rightarrow> string option \<Rightarrow> 'e + 'u selection" where
  "getToolsFromOrchestrator generateObject messages confirmationResultMessage =
     (case generateObject messages of
        Inl e \<Rightarrow> Inl e
      | Inr r \<Rightarrow>
          (let toolsRequired = gen_object r; usage = gen_usage r in
           if length toolsRequired = 0 then
             Inr \<lparr>usage = usage, toolsRequired = None\<rparr>
           else
             (let confirmationTools =
                    (if truthy confirmationResultMessage
                     then [''searchToken'']
                     else [''searchToken'', ''askForConfirmation'']);
                  allTools = new_Set (confirmationTools @ toolsRequired)
              in Inr \<lparr>usage = usage, toolsRequired = Some (spread allTools)\<rparr>)))"

text \<open>
  The local constant \<^verbatim>\<open>confirmationTools\<close> of the function (lines 30 to 32), as a
  function of the confirmation message: the baseline the function adds.
\<close>

definition confirmationTools :: "string option \<Rightarrow> string list" where
  "confirmationTools confirmationResultMessage =
     (if truthy confirmationResultMessage
      then [''searchToken'']
      else [''searchToken'', ''askForConfirmation''])"

text \<open>
  A classification call that resolves to the candidates \<open>candidates\<close> and the usage
  record \<open>u\<close> whatever the messages are, for stating the scenarios.
\<close>

abbreviation answers :: "string list \<Rightarrow> 'u \<Rightarrow> 'm \<Rightarrow> 'e + 'u generated" where
  "answers candidates u \<equiv> (\<lambda>messages. Inr \<lparr>gen_object = candidates, gen_usage = u\<rparr>)"


section \<open>The presentation tools (\<^verbatim>\<open>src/ai/generic/telegram.tsx\<close>)\<close>

text \<open>
  What a \<^verbatim>\<open>throw\<close> or a rejected promise carries: an instance of \<^verbatim>\<open>Error\<close> with
  its message, or any other value.
\<close>

datatype thrown = ErrorInstance string | OtherValue

text \<open>
  An operation that may throw returns \<^typ>\<open>thrown + 'a\<close>, \<^const>\<open>Inl\<close> for the
  exception. \<^verbatim>\<open>try { body } catch (err) { handler }\<close> runs the handler on what the
  body threw; what the handler itself throws or returns is the result.
\<close>

definition try_catch :: "thrown + 'a \<Rightarrow> (thrown \<Rightarrow> thrown + 'a) \<Rightarrow> thrown + 'a" where
  "try_catch body handler = (case body of Inl err \<Rightarrow> handler err | Inr v \<Rightarrow> Inr v)"

text \<open>\<^verbatim>\<open>err instanceof Error ? err.message : fallback\<close>\<close>

definition message_or :: "thrown \<Rightarrow> string \<Rightarrow> string" where
  "message_or err fallback =
     (case err of ErrorInstance msg \<Rightarrow> msg | OtherValue \<Rightarrow> fallback)"

text \<open>\<^verbatim>\<open>a || b\<close> on optional strings: \<^verbatim>\<open>a\<close> when it is truthy, \<^verbatim>\<open>b\<close> otherwise.\<close>

definition js_or :: "string option \<Rightarrow> string option \<Rightarrow> string option" where
  "js_or a b = (if truthy a then a else b)"

text \<open>
  The object an \<^verbatim>\<open>execute\<close> returns. The sources build it with the properties
  \<^verbatim>\<open>success\<close>, \<^verbatim>\<open>data\<close>, \<^verbatim>\<open>error\<close>, \<^verbatim>\<open>botId\<close> and \<^verbatim>\<open>noFollowUp\<close>; a
  property that is left out, or set to \<^verbatim>\<open>undefined\<close>, is \<^const>\<open>None\<close>. The payload
  \<^verbatim>\<open>data\<close> is a string for the Telegram tools and the analysis for the bundle tool.
\<close>

record 'd tool_result =
  success :: bool
  data :: "'d option"
  error :: "string option"
  botId :: "string option"
  noFollowUp :: "bool option"

text \<open>
  The server actions of \<^verbatim>\<open>@/server/actions/telegram\<close> and
  \<^verbatim>\<open>@/server/actions/bundle\<close> are not among the sources; they are parameters of the
  model, and the shapes below are the properties the callers read from their results.
  \<^verbatim>\<open>checkTelegramUsername\<close> resolves to an object with an optional \<^verbatim>\<open>username\<close>.
\<close>

record username_check =
  uc_username :: "string option"

text \<open>The argument object of \<^verbatim>\<open>sendTelegramNotification\<close>.\<close>

record send_args =
  sa_username :: "string option"
  sa_userId :: "string option"
  sa_text :: string

text \<open>
  \<^verbatim>\<open>sendTelegramNotification\<close> resolves to \<^verbatim>\<open>response\<close>, which may be undefined, as may
  \<^verbatim>\<open>response.data\<close> and \<^verbatim>\<open>response.data.data\<close>; the caller reads \<^verbatim>\<open>success\<close>,
  \<^verbatim>\<open>error\<close> and \<^verbatim>\<open>botId\<close> from \<^verbatim>\<open>response.data.data\<close>.
\<close>

record send_payload =
  sp_success :: bool
  sp_error :: "string option"
  sp_botId :: "string option"

record send_data =
  sd_data :: "send_payload option"

record send_response =
  sr_data :: "send_data option"

text \<open>
  \<^verbatim>\<open>verifyTelegramSetupAction\<close> resolves to \<^verbatim>\<open>response\<close>; the caller reads
  \<^verbatim>\<open>success\<close> and \<^verbatim>\<open>error\<close> from \<^verbatim>\<open>response.data\<close> and \<^verbatim>\<open>botId\<close> from
  \<^verbatim>\<open>response.data.data\<close>.
\<close>

record verify_payload =
  vp_botId :: "string option"

record verify_data =
  vd_success :: bool
  vd_error :: "string option"
  vd_data :: "verify_payload option"

record verify_response =
  vr_data :: "verify_data option"

text \<open>The argument object of \<^verbatim>\<open>analyzeMintBundles\<close>.\<close>

record bundle_args =
  mintAddress :: string
  minSlotTransactions :: nat

text \<open>
  The optional chain \<^verbatim>\<open>response?.data?.data\<close>: undefined when \<^verbatim>\<open>response\<close>,
  \<^verbatim>\<open>response.data\<close> or \<^verbatim>\<open>response.data.data\<close> is; otherwise \<^verbatim>\<open>response.data\<close>
  and \<^verbatim>\<open>response.data.data\<close> are both there, and the code goes on to read them.
\<close>

definition optional_payload ::
  "'r option \<Rightarrow> ('r \<Rightarrow> 'd option) \<Rightarrow> ('d \<Rightarrow> 'p option) \<Rightarrow> ('d \<times> 'p) option" where
  "optional_payload response get_data get_payload =
     (case response of
        None \<Rightarrow> None
      | Some r \<Rightarrow>
          (case get_data r of
             None \<Rightarrow> None
           | Some d \<Rightarrow>
               (case get_payload d of None \<Rightarrow> None | Some p \<Rightarrow> Some (d, p))))"

text \<open>\<^verbatim>\<open>verifyTelegramSetup.execute\<close> (lines 103 to 123).\<close>

definition verifyTelegramSetup_execute ::
  "(string option \<Rightarrow> thrown + verify_response option) \<Rightarrow> string option \<Rightarrow>
   thrown + string tool_result" where
  "verifyTelegramSetup_execute verifyTelegramSetupAction username =
     try_catch
       (case verifyTelegramSetupAction username of
          Inl err \<Rightarrow> Inl err
        | Inr response \<Rightarrow>
            (case optional_payload response vr_data vd_data of
               None \<Rightarrow>
                 Inr \<lparr>success = False, data = None,
                      error = Some ''No response from Telegram action'',
                      botId = None, noFollowUp = None\<rparr>
             | Some (response_data, payload) \<Rightarrow>
                 if \<not> vd_success response_data then
                   Inr \<lparr>success = False, data = None, error = vd_error response_data,
                        botId = vp_botId payload, noFollowUp = None\<rparr>
                 else
                   Inr \<lparr>success = True, data = Some ''Telegram setup verified'',
                        error = None, botId = None, noFollowUp = None\<rparr>))
       (\<lambda>err. Inr \<lparr>success = False, data = None,
                    error = Some (message_or err ''Verification failed''),
                    botId = None, noFollowUp = None\<rparr>)"

text \<open>
  \<^verbatim>\<open>sendTelegramNotification.execute\<close> (lines 147 to 187). \<^verbatim>\<open>this.userId\<close> is read
  from the tool object, \<^verbatim>\<open>MISSING_USERNAME_ERROR\<close> is imported from the server
  actions; both are parameters.
\<close>

definition sendTelegramNotification_execute ::
  "string \<Rightarrow> (string option \<Rightarrow> thrown + username_check) \<Rightarrow>
   (send_args \<Rightarrow> thrown + send_response option) \<Rightarrow>
   string option \<Rightarrow> string option \<Rightarrow> string \<Rightarrow> thrown + string tool_result" where
  "sendTelegramNotification_execute MISSING_USERNAME_ERROR checkTelegramUsername
       sendTelegramNotification this_userId username message =
     try_catch
       (case checkTelegramUsername (js_or this_userId None) of
          Inl err \<Rightarrow> Inl err
        | Inr usernameCheck \<Rightarrow>
            if \<not> truthy username \<and> \<not> truthy (uc_username usernameCheck) then
              Inr \<lparr>success = False, data = None, error = Some MISSING_USERNAME_ERROR,
                   botId = None, noFollowUp = None\<rparr>
            else
              (let finalUsername = js_or username (uc_username usernameCheck) in
               case sendTelegramNotification
                      \<lparr>sa_username = finalUsername,
                       sa_userId = js_or this_userId None,
                       sa_text = message\<rparr> of
                 Inl err \<Rightarrow> Inl err
               | Inr response \<Rightarrow>
                   (case optional_payload response sr_data sd_data of
                      None \<Rightarrow>
                        Inr \<lparr>success = False, data = None,
                             error = Some ''No response from Telegram action'',
                             botId = None, noFollowUp = None\<rparr>
                    | Some (response_data, payload) \<Rightarrow>
                        if \<not> sp_success payload then
                          Inr \<lparr>success = sp_success payload, data = None,
                               error = sp_error payload, botId = sp_botId payload,
                               noFollowUp = None\<rparr>
                        else
                          Inr \<lparr>success = True,
                               data = Some ''Notification sent successfully'',
                               error = None, botId = sp_botId payload,
                               noFollowUp = Some True\<rparr>)))
       (\<lambda>err. Inr \<lparr>success = False, data = None,
                    error = Some (message_or err ''Failed to send notification''),
                    botId = None, noFollowUp = None\<rparr>)"

text \<open>
  \<^verbatim>\<open>analyzeBundles.execute\<close> (lines 217 to 244). The analysis is an object or
  undefined, so \<^verbatim>\<open>!analysis\<close> holds exactly when it is undefined.
\<close>

definition analyzeBundles_execute ::
  "(bundle_args \<Rightarrow> thrown + 'a option) \<Rightarrow> string \<Rightarrow> thrown + 'a tool_result" where
  "analyzeBundles_execute analyzeMintBundles mint =
     try_catch
       (case analyzeMintBundles \<lparr>mintAddress = mint, minSlotTransactions = 2\<rparr> of
          Inl err \<Rightarrow> Inl err
        | Inr analysis \<Rightarrow>
            (case analysis of
               None \<Rightarrow>
                 Inr \<lparr>success = False, data = None,
                      error = Some ''Failed to analyze bundles'',
                      botId = None, noFollowUp = None\<rparr>
             | Some a \<Rightarrow>
                 Inr \<lparr>success = True, data = Some a, error = None,
                      botId = None, noFollowUp = None\<rparr>))
       (\<lambda>err. Inr \<lparr>success = False, data = None,
                    error = Some (message_or err ''Failed to analyze bundles''),
                    botId = None, noFollowUp = None\<rparr>)"


section \<open>Sets as insertion-ordered lists\<close>

lemma set_foldl_Set_add: "set (foldl Set_add acc xs) = set acc \<union> set xs"
  by (induction xs arbitrary: acc) (auto simp: Set_add_def)

lemma distinct_foldl_Set_add: "distinct acc \<Longrightarrow> distinct (foldl Set_add acc xs)"
  by (induction xs arbitrary: acc) (auto simp: Set_add_def)

lemma foldl_Set_add_absorb: "set xs \<subseteq> set acc \<Longrightarrow> foldl Set_add acc xs = acc"
  by (induction xs arbitrary: acc) (auto simp: Set_add_def)

lemma foldl_Set_add_distinct: "distinct (acc @ xs) \<Longrightarrow> foldl Set_add acc xs = acc @ xs"
  by (induction xs arbitrary: acc) (auto simp: Set_add_def)

lemma foldl_Set_add_prefix: "\<exists>t. foldl Set_add acc xs = acc @ t"
proof (induction xs arbitrary: acc)
  case Nil
  show ?case by simp
next
  case (Cons x xs)
  obtain t where t: "foldl Set_add (Set_add acc x) xs = Set_add acc x @ t"
    using Cons.IH by blast
  show ?case
  proof (cases "x \<in> set acc")
    case True
    then have "Set_add acc x = acc" by (simp add: Set_add_def)
    with t have "foldl Set_add acc (x # xs) = acc @ t" by simp
    then show ?thesis by blast
  next
    case False
    then have "Set_add acc x = acc @ [x]" by (simp add: Set_add_def)
    with t have "foldl Set_add acc (x # xs) = acc @ (x # t)" by simp
    then show ?thesis by blast
  qed
qed

lemma set_new_Set: "set (new_Set xs) = set xs"
  by (simp add: new_Set_def set_foldl_Set_add)

lemma distinct_new_Set: "distinct (new_Set xs)"
  by (simp add: new_Set_def distinct_foldl_Set_add)

lemma new_Set_distinct: "distinct xs \<Longrightarrow> new_Set xs = xs"
  using foldl_Set_add_distinct [of "[]" xs] by (simp add: new_Set_def)

lemma new_Set_append: "new_Set (xs @ ys) = foldl Set_add (new_Set xs) ys"
  by (simp add: new_Set_def)

lemma new_Set_prefix:
  assumes "distinct b"
  shows "\<exists>t. new_Set (b @ xs) = b @ t"
  using foldl_Set_add_prefix [of b xs] assms
  by (simp add: new_Set_append new_Set_distinct)

lemma new_Set_idem_append: "new_Set (b @ new_Set (b @ xs)) = new_Set (b @ xs)"
proof -
  obtain t where t: "foldl Set_add (new_Set b) xs = new_Set b @ t"
    using foldl_Set_add_prefix by blast
  have d: "distinct (new_Set b @ t)"
    using distinct_new_Set [of "b @ xs"] t by (simp add: new_Set_append)
  have "new_Set (b @ new_Set (b @ xs)) = foldl Set_add (new_Set b) (new_Set b @ t)"
    using t by (simp add: new_Set_append)
  also have "\<dots> = foldl Set_add (foldl Set_add (new_Set b) (new_Set b)) t"
    by simp
  also have "\<dots> = foldl Set_add (new_Set b) t"
    by (simp add: foldl_Set_add_absorb)
  also have "\<dots> = new_Set b @ t"
    using d by (rule foldl_Set_add_distinct)
  finally show ?thesis
    using t by (simp add: new_Set_append)
qed


section \<open>The two branches of the selector\<close>

lemma getTools_rejects:
  "generateObject messages = Inl e \<Longrightarrow>
   getToolsFromOrchestrator generateObject messages c = Inl e"
  by (simp add: getToolsFromOrchestrator_def)

lemma getTools_empty:
  "generateObject messages = Inr r \<Longrightarrow> gen_object r = [] \<Longrightarrow>
   getToolsFromOrchestrator generateObject messages c =
     Inr \<lparr>usage = gen_usage r, toolsRequired = None\<rparr>"
  by (simp add: getToolsFromOrchestrator_def)

lemma getTools_nonempty:
  "generateObject messages = Inr r \<Longrightarrow> gen_object r \<noteq> [] \<Longrightarrow>
   getToolsFromOrchestrator generateObject messages c =
     Inr \<lparr>usage = gen_usage r,
          toolsRequired = Some (new_Set (confirmationTools c @ gen_object r))\<rparr>"
  by (simp add: getToolsFromOrchestrator_def confirmationTools_def spread_def Let_def)

lemma distinct_confirmationTools: "distinct (confirmationTools c)"
  by (simp add: confirmationTools_def)

lemma distinct_count_list_one: "distinct xs \<Longrightarrow> x \<in> set xs \<Longrightarrow> count_list xs x = 1"
  by (induction xs) auto

lemma getTools_answers:
  "getToolsFromOrchestrator (answers xs u) m c =
     (if xs = [] then Inr \<lparr>usage = u, toolsRequired = None\<rparr>
      else Inr \<lparr>usage = u, toolsRequired = Some (new_Set (confirmationTools c @ xs))\<rparr>)"
  by (simp add: getToolsFromOrchestrator_def confirmationTools_def spread_def Let_def)

lemma new_Set_eval:
  "new_Set [] = []"
  "new_Set (x # xs) = foldl Set_add [x] xs"
  by (simp_all add: new_Set_def Set_add_def)

lemma getTools_Some_cases:
  assumes "getToolsFromOrchestrator generateObject messages c = Inr res"
    and "toolsRequired res = Some ts"
  shows "\<exists>r. generateObject messages = Inr r \<and> gen_object r \<noteq> []
             \<and> usage res = gen_usage r
             \<and> ts = new_Set (confirmationTools c @ gen_object r)"
proof (cases "generateObject messages")
  case (Inl e)
  with assms(1) show ?thesis by (simp add: getTools_rejects)
next
  case (Inr r)
  show ?thesis
  proof (cases "gen_object r = []")
    case True
    with Inr assms show ?thesis by (auto simp: getTools_empty)
  next
    case False
    with Inr assms show ?thesis by (auto simp: getTools_nonempty)
  qed
qed


section \<open>The selection policy\<close>

text \<open>
  C1. When the classifier returns a non-empty candidate array, whatever the confirmation
  signal, the function returns a tool list whose members are exactly those of the
  baseline together with the candidates: every candidate is included and nothing else
  is. The baseline is \<open>searchToken\<close> alone when the signal is truthy, and
  \<open>searchToken\<close> with \<open>askForConfirmation\<close> otherwise. The list is non-empty and has
  no duplicates.
\<close>

theorem getTools_union_baseline_candidates:
  assumes "generateObject messages = Inr r" and "gen_object r \<noteq> []"
  shows "\<exists>ts. getToolsFromOrchestrator generateObject messages c =
                 Inr \<lparr>usage = gen_usage r, toolsRequired = Some ts\<rparr>
             \<and> set ts = set (confirmationTools c) \<union> set (gen_object r)
             \<and> set (confirmationTools c) =
                 (if truthy c then {''searchToken''}
                  else {''searchToken'', ''askForConfirmation''})
             \<and> ts \<noteq> [] \<and> distinct ts"
proof -
  let ?ts = "new_Set (confirmationTools c @ gen_object r)"
  have run: "getToolsFromOrchestrator generateObject messages c =
               Inr \<lparr>usage = gen_usage r, toolsRequired = Some ?ts\<rparr>"
    using assms by (rule getTools_nonempty)
  have mem: "set ?ts = set (confirmationTools c) \<union> set (gen_object r)"
    by (simp add: set_new_Set)
  have base: "set (confirmationTools c) =
                (if truthy c then {''searchToken''}
                 else {''searchToken'', ''askForConfirmation''})"
    by (simp add: confirmationTools_def)
  have "set ?ts \<noteq> {}"
    using assms(2) mem by simp
  then have ne: "?ts \<noteq> []" by auto
  have "distinct ?ts" by (rule distinct_new_Set)
  with run mem base ne show ?thesis by blast
qed

theorem getTools_union_baseline_candidates_witness:
  "(answers [''analyzeBundles'', ''searchToken''] (7::nat) () :: unit + nat generated)
      = Inr \<lparr>gen_object = [''analyzeBundles'', ''searchToken''], gen_usage = 7\<rparr>
   \<and> gen_object \<lparr>gen_object = [''analyzeBundles'', ''searchToken''], gen_usage = (7::nat)\<rparr> \<noteq> []
   \<and> (\<exists>ts. getToolsFromOrchestrator
               (answers [''analyzeBundles'', ''searchToken''] (7::nat)
                  :: unit \<Rightarrow> unit + nat generated) () (Some ''yes'')
             = Inr \<lparr>usage = 7, toolsRequired = Some ts\<rparr>
          \<and> set ts = {''searchToken'', ''analyzeBundles''}
          \<and> ts \<noteq> [] \<and> distinct ts)"
  using getTools_union_baseline_candidates
    [where generateObject =
        "answers [''analyzeBundles'', ''searchToken''] (7::nat) :: unit \<Rightarrow> unit + nat generated"
      and messages = "()"
      and r = "\<lparr>gen_object = [''analyzeBundles'', ''searchToken''], gen_usage = (7::nat)\<rparr>"
      and c = "Some ''yes''"]
  by (simp add: confirmationTools_def truthy_def insert_commute)

text \<open>
  C2. When the classifier returns an array of length 0, the function returns the marker
  for no tools required: \<open>toolsRequired\<close> is undefined, which is not the empty list. The
  usage record is the classifier's, and the result is the same for every confirmation
  signal: no baseline is computed in this branch.
\<close>

theorem getTools_no_tools_required:
  assumes "generateObject messages = Inr r" and "length (gen_object r) = 0"
  shows "\<exists>res. getToolsFromOrchestrator generateObject messages c = Inr res
              \<and> toolsRequired res = None
              \<and> toolsRequired res \<noteq> Some []
              \<and> usage res = gen_usage r
              \<and> getToolsFromOrchestrator generateObject messages c' = Inr res"
  using assms by (simp add: getTools_empty)

theorem getTools_no_tools_required_witness:
  "(answers [] (7::nat) () :: unit + nat generated) = Inr \<lparr>gen_object = [], gen_usage = 7\<rparr>
   \<and> length (gen_object \<lparr>gen_object = [], gen_usage = (7::nat)\<rparr>) = 0
   \<and> getToolsFromOrchestrator (answers [] (7::nat) :: unit \<Rightarrow> unit + nat generated) () (Some ''yes'')
        = Inr \<lparr>usage = 7, toolsRequired = None\<rparr>
   \<and> getToolsFromOrchestrator (answers [] (7::nat) :: unit \<Rightarrow> unit + nat generated) () None
        = Inr \<lparr>usage = 7, toolsRequired = None\<rparr>"
  using getTools_no_tools_required
    [of "answers [] (7::nat) :: unit \<Rightarrow> unit + nat generated" "()"
        "\<lparr>gen_object = [], gen_usage = (7::nat)\<rparr>" "Some ''yes''" None]
  by auto

text \<open>
  C3. When the classifier returns a non-empty candidate array and the confirmation signal
  is a non-empty string, the returned list contains \<open>searchToken\<close>, and it contains
  \<open>askForConfirmation\<close> exactly when the classifier proposed it. With the candidates
  \<open>[analyzeBundles]\<close> and the signal \<open>yes\<close> the list is \<open>searchToken\<close>,
  \<open>analyzeBundles\<close>.
\<close>

theorem getTools_confirmation_answered:
  fixes generateObject :: "'m \<Rightarrow> 'e + 'u generated" and u :: 'u and m :: 'm
  assumes "generateObject messages = Inr r" and "gen_object r \<noteq> []" and "s \<noteq> []"
  shows "(\<exists>ts. getToolsFromOrchestrator generateObject messages (Some s) =
                  Inr \<lparr>usage = gen_usage r, toolsRequired = Some ts\<rparr>
              \<and> ''searchToken'' \<in> set ts
              \<and> (''askForConfirmation'' \<in> set ts
                   \<longleftrightarrow> ''askForConfirmation'' \<in> set (gen_object r)))
       \<and> getToolsFromOrchestrator
           (answers [''analyzeBundles''] u :: 'm \<Rightarrow> 'e + 'u generated) m (Some ''yes'') =
           Inr \<lparr>usage = u, toolsRequired = Some [''searchToken'', ''analyzeBundles'']\<rparr>
       \<and> set [''searchToken'', ''analyzeBundles''] = {''searchToken'', ''analyzeBundles''}"
proof -
  let ?ts = "new_Set (confirmationTools (Some s) @ gen_object r)"
  have run: "getToolsFromOrchestrator generateObject messages (Some s) =
               Inr \<lparr>usage = gen_usage r, toolsRequired = Some ?ts\<rparr>"
    using assms(1,2) by (rule getTools_nonempty)
  have base: "confirmationTools (Some s) = [''searchToken'']"
    using assms(3) by (simp add: confirmationTools_def truthy_def)
  have mem: "set ?ts = insert ''searchToken'' (set (gen_object r))"
    by (simp add: set_new_Set base)
  have general: "\<exists>ts. getToolsFromOrchestrator generateObject messages (Some s) =
                  Inr \<lparr>usage = gen_usage r, toolsRequired = Some ts\<rparr>
              \<and> ''searchToken'' \<in> set ts
              \<and> (''askForConfirmation'' \<in> set ts
                   \<longleftrightarrow> ''askForConfirmation'' \<in> set (gen_object r))"
    using run mem by auto
  have scenario: "getToolsFromOrchestrator
           (answers [''analyzeBundles''] u :: 'm \<Rightarrow> 'e + 'u generated) m (Some ''yes'') =
           Inr \<lparr>usage = u, toolsRequired = Some [''searchToken'', ''analyzeBundles'']\<rparr>"
    by (simp add: getTools_answers confirmationTools_def truthy_def new_Set_eval Set_add_def)
  from general scenario show ?thesis by simp
qed

theorem getTools_confirmation_answered_witness:
  "(answers [''askForConfirmation'', ''analyzeBundles''] (7::nat) () :: unit + nat generated)
      = Inr \<lparr>gen_object = [''askForConfirmation'', ''analyzeBundles''], gen_usage = 7\<rparr>
   \<and> gen_object \<lparr>gen_object = [''askForConfirmation'', ''analyzeBundles''], gen_usage = (7::nat)\<rparr> \<noteq> []
   \<and> ''no'' \<noteq> []
   \<and> (\<exists>ts. getToolsFromOrchestrator
              (answers [''askForConfirmation'', ''analyzeBundles''] (7::nat)
                 :: unit \<Rightarrow> unit + nat generated) () (Some ''no'')
             = Inr \<lparr>usage = 7, toolsRequired = Some ts\<rparr>
          \<and> ''searchToken'' \<in> set ts \<and> ''askForConfirmation'' \<in> set ts)
   \<and> getToolsFromOrchestrator (answers [''analyzeBundles''] (3::nat) :: unit \<Rightarrow> unit + nat generated)
        () (Some ''yes'')
        = Inr \<lparr>usage = 3, toolsRequired = Some [''searchToken'', ''analyzeBundles'']\<rparr>"
  using getTools_confirmation_answered
    [where generateObject =
        "answers [''askForConfirmation'', ''analyzeBundles''] (7::nat) :: unit \<Rightarrow> unit + nat generated"
      and messages = "()"
      and r = "\<lparr>gen_object = [''askForConfirmation'', ''analyzeBundles''], gen_usage = (7::nat)\<rparr>"
      and s = "''no''" and u = "3::nat" and m = "()"]
  by simp

text \<open>
  C4. When the classifier returns a non-empty candidate array and the confirmation signal
  is undefined, the returned list contains both \<open>searchToken\<close> and
  \<open>askForConfirmation\<close>. With the candidates \<open>[analyzeBundles]\<close> the list is
  \<open>searchToken\<close>, \<open>askForConfirmation\<close>, \<open>analyzeBundles\<close>.
\<close>

theorem getTools_confirmation_pending:
  fixes generateObject :: "'m \<Rightarrow> 'e + 'u generated" and u :: 'u and m :: 'm
  assumes "generateObject messages = Inr r" and "gen_object r \<noteq> []"
  shows "(\<exists>ts. getToolsFromOrchestrator generateObject messages None =
                  Inr \<lparr>usage = gen_usage r, toolsRequired = Some ts\<rparr>
              \<and> {''searchToken'', ''askForConfirmation''} \<subseteq> set ts)
       \<and> getToolsFromOrchestrator
           (answers [''analyzeBundles''] u :: 'm \<Rightarrow> 'e + 'u generated) m None =
           Inr \<lparr>usage = u,
                toolsRequired = Some [''searchToken'', ''askForConfirmation'', ''analyzeBundles'']\<rparr>
       \<and> set [''searchToken'', ''askForConfirmation'', ''analyzeBundles''] =
           {''searchToken'', ''askForConfirmation'', ''analyzeBundles''}"
proof -
  let ?ts = "new_Set (confirmationTools None @ gen_object r)"
  have run: "getToolsFromOrchestrator generateObject messages None =
               Inr \<lparr>usage = gen_usage r, toolsRequired = Some ?ts\<rparr>"
    using assms by (rule getTools_nonempty)
  have "{''searchToken'', ''askForConfirmation''} \<subseteq> set ?ts"
    by (simp add: set_new_Set confirmationTools_def truthy_def)
  with run have general: "\<exists>ts. getToolsFromOrchestrator generateObject messages None =
                  Inr \<lparr>usage = gen_usage r, toolsRequired = Some ts\<rparr>
              \<and> {''searchToken'', ''askForConfirmation''} \<subseteq> set ts"
    by blast
  have scenario: "getToolsFromOrchestrator
           (answers [''analyzeBundles''] u :: 'm \<Rightarrow> 'e + 'u generated) m None =
           Inr \<lparr>usage = u,
                toolsRequired = Some [''searchToken'', ''askForConfirmation'', ''analyzeBundles'']\<rparr>"
    by (simp add: getTools_answers confirmationTools_def truthy_def new_Set_eval Set_add_def)
  from general scenario show ?thesis by simp
qed

theorem getTools_confirmation_pending_witness:
  "(answers [''sendTelegramNotification''] (7::nat) () :: unit + nat generated)
      = Inr \<lparr>gen_object = [''sendTelegramNotification''], gen_usage = 7\<rparr>
   \<and> gen_object \<lparr>gen_object = [''sendTelegramNotification''], gen_usage = (7::nat)\<rparr> \<noteq> []
   \<and> (\<exists>ts. getToolsFromOrchestrator
              (answers [''sendTelegramNotification''] (7::nat) :: unit \<Rightarrow> unit + nat generated)
              () None
             = Inr \<lparr>usage = 7, toolsRequired = Some ts\<rparr>
          \<and> {''searchToken'', ''askForConfirmation''} \<subseteq> set ts)"
  using getTools_confirmation_pending
    [where generateObject =
        "answers [''sendTelegramNotification''] (7::nat) :: unit \<Rightarrow> unit + nat generated"
      and messages = "()"
      and r = "\<lparr>gen_object = [''sendTelegramNotification''], gen_usage = (7::nat)\<rparr>"
      and u = "3::nat" and m = "()"]
  by simp

text \<open>
  C5. Whenever the function returns a tool list rather than the marker for no tools, the
  list has no duplicates: every member occurs in it once, whatever the candidates and
  the confirmation signal were. The list comes from the candidates the classifier
  resolved to: every candidate is in the list and occurs in it once, so an identifier
  that the candidate array contains twice or more is in the final list once. With the
  candidates \<open>[searchToken, searchToken]\<close> and
  an undefined signal the list is \<open>searchToken\<close>, \<open>askForConfirmation\<close>, of
  length 2.
\<close>

theorem getTools_duplicate_free:
  fixes generateObject :: "'m \<Rightarrow> 'e + 'u generated" and u :: 'u and m :: 'm
  assumes "getToolsFromOrchestrator generateObject messages c = Inr res"
    and "toolsRequired res = Some ts"
  shows "distinct ts
       \<and> (\<forall>x \<in> set ts. count_list ts x = 1)
       \<and> (\<exists>r. generateObject messages = Inr r
              \<and> (\<forall>x \<in> set (gen_object r). x \<in> set ts \<and> count_list ts x = 1)
              \<and> (\<forall>x. 2 \<le> count_list (gen_object r) x \<longrightarrow> count_list ts x = 1))
       \<and> getToolsFromOrchestrator
           (answers [''searchToken'', ''searchToken''] u :: 'm \<Rightarrow> 'e + 'u generated) m None =
           Inr \<lparr>usage = u, toolsRequired = Some [''searchToken'', ''askForConfirmation'']\<rparr>
       \<and> length [''searchToken'', ''askForConfirmation''] = 2"
proof -
  from getTools_Some_cases [OF assms]
  obtain r :: "'u generated"
    where cls: "generateObject messages = Inr r"
      and ts: "ts = new_Set (confirmationTools c @ gen_object r)"
    by blast
  from ts have d: "distinct ts" by (simp add: distinct_new_Set)
  then have once: "\<forall>x \<in> set ts. count_list ts x = 1"
    by (simp add: distinct_count_list_one)
  have sub: "set (gen_object r) \<subseteq> set ts"
    by (simp add: ts set_new_Set)
  with once have cand: "\<forall>x \<in> set (gen_object r). x \<in> set ts \<and> count_list ts x = 1"
    by blast
  have twice: "\<forall>x. 2 \<le> count_list (gen_object r) x \<longrightarrow> count_list ts x = 1"
  proof (intro allI impI)
    fix x
    assume "2 \<le> count_list (gen_object r) x"
    then have "count_list (gen_object r) x \<noteq> 0" by simp
    then have "x \<in> set (gen_object r)" by (simp add: count_list_0_iff)
    with cand show "count_list ts x = 1" by blast
  qed
  from cls cand twice
  have proposed: "\<exists>r. generateObject messages = Inr r
              \<and> (\<forall>x \<in> set (gen_object r). x \<in> set ts \<and> count_list ts x = 1)
              \<and> (\<forall>x. 2 \<le> count_list (gen_object r) x \<longrightarrow> count_list ts x = 1)"
    by blast
  have scenario: "getToolsFromOrchestrator
           (answers [''searchToken'', ''searchToken''] u :: 'm \<Rightarrow> 'e + 'u generated) m None =
           Inr \<lparr>usage = u, toolsRequired = Some [''searchToken'', ''askForConfirmation'']\<rparr>"
    by (simp add: getTools_answers confirmationTools_def truthy_def new_Set_eval Set_add_def)
  from d once proposed scenario show ?thesis by simp
qed

theorem getTools_duplicate_free_witness:
  "getToolsFromOrchestrator
      (answers [''analyzeBundles'', ''analyzeBundles'', ''searchToken''] (7::nat)
         :: unit \<Rightarrow> unit + nat generated) () (Some ''yes'')
     = Inr \<lparr>usage = 7, toolsRequired = Some [''searchToken'', ''analyzeBundles'']\<rparr>
   \<and> toolsRequired \<lparr>usage = (7::nat), toolsRequired = Some [''searchToken'', ''analyzeBundles'']\<rparr>
       = Some [''searchToken'', ''analyzeBundles'']
   \<and> distinct [''searchToken'', ''analyzeBundles'']
   \<and> count_list [''analyzeBundles'', ''analyzeBundles'', ''searchToken''] ''analyzeBundles'' = 2
   \<and> count_list [''searchToken'', ''analyzeBundles''] ''analyzeBundles'' = 1
   \<and> count_list [''searchToken'', ''analyzeBundles''] ''searchToken'' = 1
   \<and> getToolsFromOrchestrator
        (answers [''searchToken'', ''searchToken''] (3::nat) :: unit \<Rightarrow> unit + nat generated)
        () None
       = Inr \<lparr>usage = 3, toolsRequired = Some [''searchToken'', ''askForConfirmation'']\<rparr>"
proof -
  have run: "getToolsFromOrchestrator
      (answers [''analyzeBundles'', ''analyzeBundles'', ''searchToken''] (7::nat)
         :: unit \<Rightarrow> unit + nat generated) () (Some ''yes'')
     = Inr \<lparr>usage = 7, toolsRequired = Some [''searchToken'', ''analyzeBundles'']\<rparr>"
    by (simp add: getTools_answers confirmationTools_def truthy_def new_Set_eval Set_add_def)
  have sel: "toolsRequired \<lparr>usage = (7::nat), toolsRequired = Some [''searchToken'', ''analyzeBundles'']\<rparr>
       = Some [''searchToken'', ''analyzeBundles'']"
    by simp
  from getTools_duplicate_free [OF run sel, where u = "3::nat" and m = "()"] run sel
  show ?thesis by simp
qed

text \<open>
  C6. The baseline depends on the confirmation signal only. Two runs with the same
  signal, on any two non-empty candidate arrays, both return
  \<open>new_Set (confirmationTools c @ candidates)\<close> for the same list
  \<open>confirmationTools c\<close>; both results start with that baseline, and a tool that one
  run returns without the classifier having proposed it is returned by the other run
  too.
\<close>

theorem baseline_independent_of_candidates:
  assumes "generateObject1 messages1 = Inr r1" and "gen_object r1 \<noteq> []"
    and "generateObject2 messages2 = Inr r2" and "gen_object r2 \<noteq> []"
  shows "\<exists>ts1 ts2.
           getToolsFromOrchestrator generateObject1 messages1 c =
             Inr \<lparr>usage = gen_usage r1, toolsRequired = Some ts1\<rparr>
         \<and> getToolsFromOrchestrator generateObject2 messages2 c =
             Inr \<lparr>usage = gen_usage r2, toolsRequired = Some ts2\<rparr>
         \<and> ts1 = new_Set (confirmationTools c @ gen_object r1)
         \<and> ts2 = new_Set (confirmationTools c @ gen_object r2)
         \<and> take (length (confirmationTools c)) ts1 = confirmationTools c
         \<and> take (length (confirmationTools c)) ts2 = confirmationTools c
         \<and> set ts1 - set (gen_object r1) \<subseteq> set ts2
         \<and> set ts2 - set (gen_object r2) \<subseteq> set ts1"
proof -
  let ?b = "confirmationTools c"
  let ?ts1 = "new_Set (?b @ gen_object r1)"
  let ?ts2 = "new_Set (?b @ gen_object r2)"
  have run1: "getToolsFromOrchestrator generateObject1 messages1 c =
                Inr \<lparr>usage = gen_usage r1, toolsRequired = Some ?ts1\<rparr>"
    using assms(1,2) by (rule getTools_nonempty)
  have run2: "getToolsFromOrchestrator generateObject2 messages2 c =
                Inr \<lparr>usage = gen_usage r2, toolsRequired = Some ?ts2\<rparr>"
    using assms(3,4) by (rule getTools_nonempty)
  have pre: "take (length ?b) (new_Set (?b @ xs)) = ?b" for xs
    using new_Set_prefix [OF distinct_confirmationTools, of c xs] by auto
  have added: "set (new_Set (?b @ xs)) - set xs \<subseteq> set (new_Set (?b @ ys))" for xs ys
    by (auto simp: set_new_Set)
  from run1 run2 pre [of "gen_object r1"] pre [of "gen_object r2"]
    added [of "gen_object r1" "gen_object r2"] added [of "gen_object r2" "gen_object r1"]
  show ?thesis by blast
qed

theorem baseline_independent_of_candidates_witness:
  "(answers [''analyzeBundles''] (7::nat) () :: unit + nat generated)
      = Inr \<lparr>gen_object = [''analyzeBundles''], gen_usage = 7\<rparr>
   \<and> gen_object \<lparr>gen_object = [''analyzeBundles''], gen_usage = (7::nat)\<rparr> \<noteq> []
   \<and> (answers [''searchToken'', ''sendTelegramNotification''] (9::nat) () :: unit + nat generated)
      = Inr \<lparr>gen_object = [''searchToken'', ''sendTelegramNotification''], gen_usage = 9\<rparr>
   \<and> gen_object \<lparr>gen_object = [''searchToken'', ''sendTelegramNotification''], gen_usage = (9::nat)\<rparr> \<noteq> []
   \<and> (\<exists>ts1 ts2.
          getToolsFromOrchestrator
            (answers [''analyzeBundles''] (7::nat) :: unit \<Rightarrow> unit + nat generated) () None
            = Inr \<lparr>usage = 7, toolsRequired = Some ts1\<rparr>
        \<and> getToolsFromOrchestrator
            (answers [''searchToken'', ''sendTelegramNotification''] (9::nat)
               :: unit \<Rightarrow> unit + nat generated) () None
            = Inr \<lparr>usage = 9, toolsRequired = Some ts2\<rparr>
        \<and> take 2 ts1 = [''searchToken'', ''askForConfirmation'']
        \<and> take 2 ts2 = [''searchToken'', ''askForConfirmation''])"
  using baseline_independent_of_candidates
    [where ?generateObject1.0 =
        "answers [''analyzeBundles''] (7::nat) :: unit \<Rightarrow> unit + nat generated"
      and ?messages1.0 = "()"
      and ?r1.0 = "\<lparr>gen_object = [''analyzeBundles''], gen_usage = (7::nat)\<rparr>"
      and ?generateObject2.0 =
        "answers [''searchToken'', ''sendTelegramNotification''] (9::nat)
           :: unit \<Rightarrow> unit + nat generated"
      and ?messages2.0 = "()"
      and ?r2.0 = "\<lparr>gen_object = [''searchToken'', ''sendTelegramNotification''], gen_usage = (9::nat)\<rparr>"
      and c = None]
  by (simp add: confirmationTools_def truthy_def new_Set_eval Set_add_def)

text \<open>
  C7. The augmentation step is idempotent. For every candidate array \<open>xs\<close> and every
  confirmation signal, adding the baseline to \<open>new_Set (confirmationTools c @ xs)\<close> and
  removing duplicates again gives the same list. On the function: when a run returns
  the tool list \<open>ts\<close> and the classifier of a second run with the same signal answers
  \<open>ts\<close>, the second run returns \<open>ts\<close> again.
\<close>

theorem augmentation_idempotent:
  fixes generateObject_a :: "'m \<Rightarrow> 'e + 'u generated"
    and generateObject_b :: "'n \<Rightarrow> 'f + 'v generated"
  assumes "getToolsFromOrchestrator generateObject_a messages_a c = Inr res_a"
    and "toolsRequired res_a = Some ts"
    and "generateObject_b messages_b = Inr r_b"
    and "gen_object r_b = ts"
  shows "getToolsFromOrchestrator generateObject_b messages_b c =
           Inr \<lparr>usage = gen_usage r_b, toolsRequired = Some ts\<rparr>
       \<and> (\<forall>xs. new_Set (confirmationTools c @ new_Set (confirmationTools c @ xs)) =
                 new_Set (confirmationTools c @ xs))"
proof -
  from getTools_Some_cases [OF assms(1,2)]
  obtain r1 :: "'u generated"
    where ts: "ts = new_Set (confirmationTools c @ gen_object r1)"
      and ne: "gen_object r1 \<noteq> []"
    by blast
  have "set ts \<noteq> {}"
    using ne by (simp add: ts set_new_Set)
  then have "gen_object r_b \<noteq> []"
    using assms(4) by auto
  with assms(3)
  have "getToolsFromOrchestrator generateObject_b messages_b c =
          Inr \<lparr>usage = gen_usage r_b,
               toolsRequired = Some (new_Set (confirmationTools c @ gen_object r_b))\<rparr>"
    by (rule getTools_nonempty)
  then have again: "getToolsFromOrchestrator generateObject_b messages_b c =
           Inr \<lparr>usage = gen_usage r_b, toolsRequired = Some ts\<rparr>"
    using assms(4) by (simp add: ts new_Set_idem_append)
  have step: "\<forall>xs. new_Set (confirmationTools c @ new_Set (confirmationTools c @ xs)) =
                 new_Set (confirmationTools c @ xs)"
    by (simp add: new_Set_idem_append)
  from again step show ?thesis by simp
qed

theorem augmentation_idempotent_witness:
  "getToolsFromOrchestrator
      (answers [''analyzeBundles'', ''searchToken'', ''analyzeBundles''] (7::nat)
         :: unit \<Rightarrow> unit + nat generated) () None
     = Inr \<lparr>usage = 7,
            toolsRequired = Some [''searchToken'', ''askForConfirmation'', ''analyzeBundles'']\<rparr>
   \<and> getToolsFromOrchestrator
      (answers [''searchToken'', ''askForConfirmation'', ''analyzeBundles''] (9::nat)
         :: unit \<Rightarrow> unit + nat generated) () None
     = Inr \<lparr>usage = 9,
            toolsRequired = Some [''searchToken'', ''askForConfirmation'', ''analyzeBundles'']\<rparr>"
proof -
  have run1: "getToolsFromOrchestrator
      (answers [''analyzeBundles'', ''searchToken'', ''analyzeBundles''] (7::nat)
         :: unit \<Rightarrow> unit + nat generated) () None
     = Inr \<lparr>usage = 7,
            toolsRequired = Some [''searchToken'', ''askForConfirmation'', ''analyzeBundles'']\<rparr>"
    by (simp add: getTools_answers confirmationTools_def truthy_def new_Set_eval Set_add_def)
  have sel: "toolsRequired \<lparr>usage = (7::nat),
            toolsRequired = Some [''searchToken'', ''askForConfirmation'', ''analyzeBundles'']\<rparr>
       = Some [''searchToken'', ''askForConfirmation'', ''analyzeBundles'']"
    by simp
  have cls: "(answers [''searchToken'', ''askForConfirmation'', ''analyzeBundles''] (9::nat)
               :: unit \<Rightarrow> unit + nat generated) ()
       = Inr \<lparr>gen_object = [''searchToken'', ''askForConfirmation'', ''analyzeBundles''],
              gen_usage = 9\<rparr>"
    by simp
  have obj: "gen_object \<lparr>gen_object = [''searchToken'', ''askForConfirmation'', ''analyzeBundles''],
              gen_usage = (9::nat)\<rparr>
       = [''searchToken'', ''askForConfirmation'', ''analyzeBundles'']"
    by simp
  from augmentation_idempotent
      [where generateObject_a =
          "answers [''analyzeBundles'', ''searchToken'', ''analyzeBundles''] (7::nat)
             :: unit \<Rightarrow> unit + nat generated"
         and generateObject_b =
          "answers [''searchToken'', ''askForConfirmation'', ''analyzeBundles''] (9::nat)
             :: unit \<Rightarrow> unit + nat generated"
         and messages_a = "()" and messages_b = "()", OF run1 sel cls obj] run1
  show ?thesis by simp
qed

text \<open>
  C8. In both branches the usage record of the result is the one the classifier
  returned: whenever the classification call resolves, with an empty or a non-empty
  candidate array, the function resolves and its \<open>usage\<close> is the classifier's.
\<close>

theorem usage_passed_through:
  assumes "generateObject messages = Inr r"
  shows "\<exists>res. getToolsFromOrchestrator generateObject messages c = Inr res
              \<and> usage res = gen_usage r"
proof (cases "gen_object r = []")
  case True
  with assms show ?thesis by (simp add: getTools_empty)
next
  case False
  with assms show ?thesis by (simp add: getTools_nonempty)
qed

theorem usage_passed_through_witness:
  "(answers [] (7::nat) () :: unit + nat generated) = Inr \<lparr>gen_object = [], gen_usage = 7\<rparr>
   \<and> (answers [''analyzeBundles''] (9::nat) () :: unit + nat generated)
       = Inr \<lparr>gen_object = [''analyzeBundles''], gen_usage = 9\<rparr>
   \<and> (\<exists>res. getToolsFromOrchestrator
                (answers [] (7::nat) :: unit \<Rightarrow> unit + nat generated) () None = Inr res
            \<and> usage res = 7)
   \<and> (\<exists>res. getToolsFromOrchestrator
                (answers [''analyzeBundles''] (9::nat) :: unit \<Rightarrow> unit + nat generated)
                () (Some ''yes'') = Inr res
            \<and> usage res = 9)"
  using usage_passed_through
      [where generateObject = "answers [] (7::nat) :: unit \<Rightarrow> unit + nat generated"
         and messages = "()" and r = "\<lparr>gen_object = [], gen_usage = (7::nat)\<rparr>"
         and c = None]
    usage_passed_through
      [where generateObject =
          "answers [''analyzeBundles''] (9::nat) :: unit \<Rightarrow> unit + nat generated"
         and messages = "()" and r = "\<lparr>gen_object = [''analyzeBundles''], gen_usage = (9::nat)\<rparr>"
         and c = "Some ''yes''"]
  by simp

text \<open>
  C9. The empty string as confirmation signal is treated like an absent signal, since
  the branch tests the truthiness of the string: for every non-empty candidate array
  the run with the signal \<open>""\<close> returns what the run with an undefined signal
  returns, namely the candidates added to the two-element baseline \<open>searchToken\<close>,
  \<open>askForConfirmation\<close>.
\<close>

theorem empty_signal_as_absent:
  assumes "generateObject messages = Inr r" and "gen_object r \<noteq> []"
  shows "getToolsFromOrchestrator generateObject messages (Some '''') =
           getToolsFromOrchestrator generateObject messages None
       \<and> getToolsFromOrchestrator generateObject messages (Some '''') =
           Inr \<lparr>usage = gen_usage r,
                toolsRequired =
                  Some (new_Set ([''searchToken'', ''askForConfirmation''] @ gen_object r))\<rparr>
       \<and> {''searchToken'', ''askForConfirmation''}
           \<subseteq> set (new_Set ([''searchToken'', ''askForConfirmation''] @ gen_object r))"
proof -
  have same: "confirmationTools (Some '''') = confirmationTools None"
    by (simp add: confirmationTools_def truthy_def)
  have base: "confirmationTools None = [''searchToken'', ''askForConfirmation'']"
    by (simp add: confirmationTools_def truthy_def)
  have run: "getToolsFromOrchestrator generateObject messages c =
               Inr \<lparr>usage = gen_usage r,
                    toolsRequired = Some (new_Set (confirmationTools c @ gen_object r))\<rparr>" for c
    using assms by (rule getTools_nonempty)
  have sup: "{''searchToken'', ''askForConfirmation''}
           \<subseteq> set (new_Set ([''searchToken'', ''askForConfirmation''] @ gen_object r))"
    by (simp add: set_new_Set)
  from run [of "Some ''''"] run [of None] sup show ?thesis
    by (simp add: same base)
qed

theorem empty_signal_as_absent_witness:
  "(answers [''analyzeBundles''] (7::nat) () :: unit + nat generated)
      = Inr \<lparr>gen_object = [''analyzeBundles''], gen_usage = 7\<rparr>
   \<and> gen_object \<lparr>gen_object = [''analyzeBundles''], gen_usage = (7::nat)\<rparr> \<noteq> []
   \<and> getToolsFromOrchestrator
        (answers [''analyzeBundles''] (7::nat) :: unit \<Rightarrow> unit + nat generated) () (Some '''')
       = getToolsFromOrchestrator
        (answers [''analyzeBundles''] (7::nat) :: unit \<Rightarrow> unit + nat generated) () None
   \<and> getToolsFromOrchestrator
        (answers [''analyzeBundles''] (7::nat) :: unit \<Rightarrow> unit + nat generated) () (Some '''')
       = Inr \<lparr>usage = 7,
              toolsRequired = Some [''searchToken'', ''askForConfirmation'', ''analyzeBundles'']\<rparr>"
proof -
  let ?r = "\<lparr>gen_object = [''analyzeBundles''], gen_usage = (7::nat)\<rparr>"
  have cls: "(answers [''analyzeBundles''] (7::nat) () :: unit + nat generated) = Inr ?r"
    by simp
  have ne: "gen_object ?r \<noteq> []"
    by simp
  note t = empty_signal_as_absent
      [where generateObject =
          "answers [''analyzeBundles''] (7::nat) :: unit \<Rightarrow> unit + nat generated"
         and messages = "()" and r = ?r, OF cls ne]
  have same: "getToolsFromOrchestrator
        (answers [''analyzeBundles''] (7::nat) :: unit \<Rightarrow> unit + nat generated) () (Some '''')
       = getToolsFromOrchestrator
        (answers [''analyzeBundles''] (7::nat) :: unit \<Rightarrow> unit + nat generated) () None"
    using t by (rule conjunct1)
  have "new_Set ([''searchToken'', ''askForConfirmation''] @ gen_object ?r) =
          [''searchToken'', ''askForConfirmation'', ''analyzeBundles'']"
    by (simp add: new_Set_eval Set_add_def)
  with t [THEN conjunct2, THEN conjunct1]
  have run: "getToolsFromOrchestrator
        (answers [''analyzeBundles''] (7::nat) :: unit \<Rightarrow> unit + nat generated) () (Some '''')
       = Inr \<lparr>usage = 7,
              toolsRequired = Some [''searchToken'', ''askForConfirmation'', ''analyzeBundles'']\<rparr>"
    by simp
  from cls ne same run show ?thesis by blast
qed


section \<open>The presentation tools never throw\<close>

lemma try_catch_simps:
  "try_catch (Inl err) handler = handler err"
  "try_catch (Inr v) handler = Inr v"
  by (simp_all add: try_catch_def)

lemma try_catch_returns:
  assumes "\<And>err. \<exists>v. handler err = Inr v"
  shows "\<exists>v. try_catch body handler = Inr v"
  using assms by (cases body) (simp_all add: try_catch_simps)

lemma verifyTelegramSetup_returns:
  "\<exists>res. verifyTelegramSetup_execute verifyTelegramSetupAction username = Inr res"
  unfolding verifyTelegramSetup_execute_def by (rule try_catch_returns) simp

lemma verifyTelegramSetup_caught:
  assumes "verifyTelegramSetupAction username = Inl err"
  shows "verifyTelegramSetup_execute verifyTelegramSetupAction username =
           Inr \<lparr>success = False, data = None,
                error = Some (message_or err ''Verification failed''),
                botId = None, noFollowUp = None\<rparr>"
  using assms by (simp add: verifyTelegramSetup_execute_def try_catch_simps)

lemma sendTelegramNotification_returns:
  "\<exists>res. sendTelegramNotification_execute missing checkTelegramUsername
            sendTelegramNotification this_userId username message = Inr res"
  unfolding sendTelegramNotification_execute_def by (rule try_catch_returns) simp

lemma sendTelegramNotification_caught_check:
  assumes "checkTelegramUsername (js_or this_userId None) = Inl err"
  shows "sendTelegramNotification_execute missing checkTelegramUsername
           sendTelegramNotification this_userId username message =
           Inr \<lparr>success = False, data = None,
                error = Some (message_or err ''Failed to send notification''),
                botId = None, noFollowUp = None\<rparr>"
  using assms by (simp add: sendTelegramNotification_execute_def try_catch_simps)

lemma sendTelegramNotification_caught_send:
  assumes "checkTelegramUsername (js_or this_userId None) = Inr usernameCheck"
    and "truthy username \<or> truthy (uc_username usernameCheck)"
    and "sendTelegramNotification
           \<lparr>sa_username = js_or username (uc_username usernameCheck),
            sa_userId = js_or this_userId None, sa_text = message\<rparr> = Inl err"
  shows "sendTelegramNotification_execute missing checkTelegramUsername
           sendTelegramNotification this_userId username message =
           Inr \<lparr>success = False, data = None,
                error = Some (message_or err ''Failed to send notification''),
                botId = None, noFollowUp = None\<rparr>"
  using assms by (auto simp: sendTelegramNotification_execute_def try_catch_simps Let_def)

lemma analyzeBundles_returns:
  "\<exists>res. analyzeBundles_execute analyzeMintBundles mint = Inr res"
  unfolding analyzeBundles_execute_def by (rule try_catch_returns) simp

lemma analyzeBundles_caught:
  assumes "analyzeMintBundles \<lparr>mintAddress = mint, minSlotTransactions = 2\<rparr> = Inl err"
  shows "analyzeBundles_execute analyzeMintBundles mint =
           Inr \<lparr>success = False, data = None,
                error = Some (message_or err ''Failed to analyze bundles''),
                botId = None, noFollowUp = None\<rparr>"
  using assms by (simp add: analyzeBundles_execute_def try_catch_simps)

text \<open>
  C10. The \<open>execute\<close> operations of \<open>verifyTelegramSetup\<close>,
  \<open>sendTelegramNotification\<close> and \<open>analyzeBundles\<close> never throw: for every input and
  every outcome of their external calls they return a record. When an external call
  they make throws, the record has \<open>success = false\<close> and an error message: the
  message of the thrown \<open>Error\<close>, or the tool's fixed text when the thrown value is
  not an \<open>Error\<close>.
\<close>

theorem execute_never_throws:
  "(\<exists>res. verifyTelegramSetup_execute verifyTelegramSetupAction username = Inr res)
   \<and> (\<exists>res. sendTelegramNotification_execute missing checkTelegramUsername
               sendTelegramNotification this_userId username message = Inr res)
   \<and> (\<exists>res. analyzeBundles_execute analyzeMintBundles mint = Inr res)
   \<and> (verifyTelegramSetupAction username = Inl err_v \<longrightarrow>
        (\<exists>res msg. verifyTelegramSetup_execute verifyTelegramSetupAction username = Inr res
            \<and> success res = False \<and> error res = Some msg
            \<and> msg = message_or err_v ''Verification failed''))
   \<and> (checkTelegramUsername (js_or this_userId None) = Inl err_c \<longrightarrow>
        (\<exists>res msg. sendTelegramNotification_execute missing checkTelegramUsername
               sendTelegramNotification this_userId username message = Inr res
            \<and> success res = False \<and> error res = Some msg
            \<and> msg = message_or err_c ''Failed to send notification''))
   \<and> (checkTelegramUsername (js_or this_userId None) = Inr usernameCheck
        \<and> (truthy username \<or> truthy (uc_username usernameCheck))
        \<and> sendTelegramNotification
             \<lparr>sa_username = js_or username (uc_username usernameCheck),
              sa_userId = js_or this_userId None, sa_text = message\<rparr> = Inl err_s \<longrightarrow>
        (\<exists>res msg. sendTelegramNotification_execute missing checkTelegramUsername
               sendTelegramNotification this_userId username message = Inr res
            \<and> success res = False \<and> error res = Some msg
            \<and> msg = message_or err_s ''Failed to send notification''))
   \<and> (analyzeMintBundles \<lparr>mintAddress = mint, minSlotTransactions = 2\<rparr> = Inl err_a \<longrightarrow>
        (\<exists>res msg. analyzeBundles_execute analyzeMintBundles mint = Inr res
            \<and> success res = False \<and> error res = Some msg
            \<and> msg = message_or err_a ''Failed to analyze bundles''))"
  using verifyTelegramSetup_returns [of verifyTelegramSetupAction username]
    sendTelegramNotification_returns
      [of missing checkTelegramUsername sendTelegramNotification this_userId username message]
    analyzeBundles_returns [of analyzeMintBundles mint]
  by (simp add: verifyTelegramSetup_caught sendTelegramNotification_caught_check
      sendTelegramNotification_caught_send analyzeBundles_caught)

theorem execute_never_throws_witness:
  "(\<exists>res. verifyTelegramSetup_execute (\<lambda>u. Inl (ErrorInstance ''timeout'')) (Some ''alice'')
            = Inr res
        \<and> success res = False \<and> error res = Some ''timeout'')
   \<and> (\<exists>res. sendTelegramNotification_execute ''missing username''
              (\<lambda>u. Inl OtherValue) (\<lambda>a. Inr None) None (Some ''alice'') ''hello''
            = Inr res
        \<and> success res = False \<and> error res = Some ''Failed to send notification'')
   \<and> (\<exists>res. sendTelegramNotification_execute ''missing username''
              (\<lambda>u. Inr \<lparr>uc_username = Some ''bob''\<rparr>) (\<lambda>a. Inl (ErrorInstance ''bot down''))
              (Some ''user-1'') None ''hello''
            = Inr res
        \<and> success res = False \<and> error res = Some ''bot down'')
   \<and> (\<exists>res. analyzeBundles_execute
              (\<lambda>a. Inl (ErrorInstance ''rpc failed'') :: thrown + unit option) ''mint''
            = Inr res
        \<and> success res = False \<and> error res = Some ''rpc failed'')"
  using execute_never_throws
      [where verifyTelegramSetupAction = "\<lambda>u. Inl (ErrorInstance ''timeout'')"
         and username = "Some ''alice''" and err_v = "ErrorInstance ''timeout''"
         and missing = "''missing username''"
         and checkTelegramUsername = "\<lambda>u. Inl OtherValue" and err_c = OtherValue
         and sendTelegramNotification = "\<lambda>a. Inr None"
         and this_userId = None and message = "''hello''"
         and usernameCheck = "\<lparr>uc_username = None\<rparr>" and err_s = OtherValue
         and analyzeMintBundles = "\<lambda>a. Inl (ErrorInstance ''rpc failed'') :: thrown + unit option"
         and mint = "''mint''" and err_a = "ErrorInstance ''rpc failed''"]
    execute_never_throws
      [where verifyTelegramSetupAction = "\<lambda>u. Inl (ErrorInstance ''timeout'')"
         and username = None and err_v = "ErrorInstance ''timeout''"
         and missing = "''missing username''"
         and checkTelegramUsername = "\<lambda>u. Inr \<lparr>uc_username = Some ''bob''\<rparr>"
         and err_c = OtherValue
         and sendTelegramNotification = "\<lambda>a. Inl (ErrorInstance ''bot down'')"
         and this_userId = "Some ''user-1''" and message = "''hello''"
         and usernameCheck = "\<lparr>uc_username = Some ''bob''\<rparr>"
         and err_s = "ErrorInstance ''bot down''"
         and analyzeMintBundles = "\<lambda>a. Inl (ErrorInstance ''rpc failed'') :: thrown + unit option"
         and mint = "''mint''" and err_a = "ErrorInstance ''rpc failed''"]
  by (simp add: message_or_def truthy_def)

end
